theory Spec2Isabelle
  imports Main
begin

section \<open>JavaScript values\<close>

text \<open>
  A JavaScript string is a sequence of UTF-16 code units. The user-visible texts of the
  Document Generation Widget are Cyrillic, so they are written as lists of code units;
  ASCII texts are written with \<open>str\<close>.
\<close>

type_synonym js_string = "nat list"

definition str :: "string \<Rightarrow> js_string" where
  "str s = map of_char s"

text \<open>
  The values the widgets receive from \<open>response.json()\<close> and keep in their state.
  \<open>JUndefined\<close> also stands for a property that an object does not have.
  Numbers are only ever tested for truthiness by this code (zero is falsy; JSON cannot
  produce NaN), so they are kept as integers.
\<close>

datatype jsval =
    JUndefined
  | JNull
  | JBool bool
  | JNum int
  | JStr js_string
  | JArr "jsval list"
  | JObj "(js_string \<times> jsval) list"

datatype js_error = JsError (err_name: js_string) (message: js_string)

fun truthy :: "jsval \<Rightarrow> bool" where
  "truthy JUndefined = False"
| "truthy JNull = False"
| "truthy (JBool b) = b"
| "truthy (JNum n) = (n \<noteq> 0)"
| "truthy (JStr s) = (s \<noteq> [])"
| "truthy (JArr xs) = True"
| "truthy (JObj kvs) = True"

text \<open>The operator \<open>a || b\<close>.\<close>

definition js_or :: "jsval \<Rightarrow> jsval \<Rightarrow> jsval" where
  "js_or a b = (if truthy a then a else b)"

text \<open>
  Reading a property \<open>v.key\<close>. On \<open>null\<close> and \<open>undefined\<close> it throws a TypeError
  (the message is V8's wording); on an object it is the own property or \<open>undefined\<close>;
  on the other values it is \<open>undefined\<close>, since none of the keys this code reads
  (response, image, success, requirements, document, error, artifacts, diagram, page_url)
  is a property of a string, array, number or boolean.
\<close>

definition null_property_error :: "js_string \<Rightarrow> js_string \<Rightarrow> js_error" where
  "null_property_error what key =
     JsError (str ''TypeError'')
       (str ''Cannot read properties of '' @ what @ str '' (reading '' @ [39] @ key @ [39] @ str '')'')"

fun get_prop :: "jsval \<Rightarrow> js_string \<Rightarrow> js_error + jsval" where
  "get_prop JUndefined key = Inl (null_property_error (str ''undefined'') key)"
| "get_prop JNull key = Inl (null_property_error (str ''null'') key)"
| "get_prop (JObj kvs) key = Inr (case map_of kvs key of None \<Rightarrow> JUndefined | Some v \<Rightarrow> v)"
| "get_prop v key = Inr JUndefined"

text \<open>
  \<open>v.length\<close> of a truthy value (never \<open>null\<close> or \<open>undefined\<close>, so it cannot throw).
\<close>

fun js_length :: "jsval \<Rightarrow> jsval" where
  "js_length (JStr s) = JNum (int (length s))"
| "js_length (JArr xs) = JNum (int (length xs))"
| "js_length (JObj kvs) = (case map_of kvs (str ''length'') of None \<Rightarrow> JUndefined | Some v \<Rightarrow> v)"
| "js_length v = JUndefined"

text \<open>
  \<open>String.prototype.trim\<close>: strips the code units of ECMAScript's WhiteSpace and
  LineTerminator productions from both ends.
\<close>

definition js_whitespace :: "nat \<Rightarrow> bool" where
  "js_whitespace c =
     (c \<in> set [9, 10, 11, 12, 13, 32, 160, 5760, 8232, 8233, 8239, 8287, 12288, 65279]
      \<or> (8192 \<le> c \<and> c \<le> 8202))"

definition trim :: "js_string \<Rightarrow> js_string" where
  "trim s = rev (dropWhile js_whitespace (rev (dropWhile js_whitespace s)))"

section \<open>The browser: network, console, dialogs\<close>

datatype js_file = File (name: js_string) (bytes: "nat list")

datatype form_part = FormText jsval | FormFile js_file

text \<open>
  The body of a POST request: the object given to \<open>JSON.stringify\<close> (sent with the
  header Content-Type: application/json), or the entries of a \<open>FormData\<close>.
\<close>

datatype request_body = JsonBody jsval | FormBody "(js_string \<times> form_part) list"

datatype log_arg = LogVal jsval | LogErr js_error

text \<open>A template literal: its fixed texts and the values substituted between them.\<close>

datatype template_part = Lit js_string | Subst jsval

text \<open>
  What a handler does to the world outside the component state, in order.
  \<open>SaveFile name mime content\<close> is the click on a temporary link whose \<open>download\<close>
  attribute is \<open>name\<close> and whose target is a Blob of type \<open>mime\<close> made of \<open>content\<close>.
\<close>

datatype effect =
    Fetch js_string request_body
  | ConsoleLog "log_arg list"
  | ConsoleError "log_arg list"
  | Confirm "template_part list"
  | WindowOpen jsval js_string
  | SaveFile js_string js_string jsval

text \<open>
  A response carries its HTTP status and what \<open>response.json()\<close> settles to: the parsed
  body, or the error it rejects with when the body is not JSON.
\<close>

datatype response = Response (status: nat) (json: "js_error + jsval")

datatype fetch_outcome = Rejects js_error | Resolves response

definition ok :: "response \<Rightarrow> bool" where
  "ok r = (200 \<le> status r \<and> status r \<le> 299)"

record world =
  trace :: "effect list"

section \<open>Handlers as state transformers that may throw\<close>

text \<open>
  A handler takes the state and returns the state it leaves together with either the
  exception that left it uncaught or its result. State changes made before a throw stay.
\<close>

type_synonym ('s, 'a) js = "'s \<Rightarrow> (js_error + 'a) \<times> 's"

definition ret :: "'a \<Rightarrow> ('s, 'a) js" where
  "ret a s = (Inr a, s)"

definition throw :: "js_error \<Rightarrow> ('s, 'a) js" where
  "throw e s = (Inl e, s)"

definition lift :: "js_error + 'a \<Rightarrow> ('s, 'a) js" where
  "lift r s = (r, s)"

definition bind :: "('s, 'a) js \<Rightarrow> ('a \<Rightarrow> ('s, 'b) js) \<Rightarrow> ('s, 'b) js" where
  "bind m f s = (case m s of (Inl e, s') \<Rightarrow> (Inl e, s') | (Inr a, s') \<Rightarrow> f a s')"

definition seq :: "('s, unit) js \<Rightarrow> ('s, 'b) js \<Rightarrow> ('s, 'b) js" where
  "seq m n = bind m (\<lambda>_. n)"

definition get_state :: "('s, 's) js" where
  "get_state s = (Inr s, s)"

definition modify :: "('s \<Rightarrow> 's) \<Rightarrow> ('s, unit) js" where
  "modify f s = (Inr (), f s)"

definition emit :: "effect \<Rightarrow> ('a world_scheme, unit) js" where
  "emit e s = (Inr (), s\<lparr>trace := trace s @ [e]\<rparr>)"

text \<open>
  \<open>try { body } catch (e) { handler } finally { fin }\<close>: the handler runs when the body
  throws, \<open>fin\<close> runs in every case, and an exception of \<open>fin\<close> replaces the outcome.
\<close>

definition try_catch_finally ::
  "('s, unit) js \<Rightarrow> (js_error \<Rightarrow> ('s, unit) js) \<Rightarrow> ('s, unit) js \<Rightarrow> ('s, unit) js" where
  "try_catch_finally body handler fin s =
     (case (case body s of (Inl e, s1) \<Rightarrow> handler e s1 | (Inr u, s1) \<Rightarrow> (Inr u, s1)) of
        (r, s2) \<Rightarrow> (case fin s2 of (Inl e', s3) \<Rightarrow> (Inl e', s3) | (Inr u, s3) \<Rightarrow> (r, s3)))"

text \<open>
  \<open>await fetch(url, {method: 'POST', body})\<close>: the request is issued, and the promise
  settles as the environment says.
\<close>

definition fetch :: "fetch_outcome \<Rightarrow> js_string \<Rightarrow> request_body \<Rightarrow> ('a world_scheme, response) js" where
  "fetch outcome url body =
     seq (emit (Fetch url body))
         (case outcome of Rejects e \<Rightarrow> throw e | Resolves r \<Rightarrow> ret r)"

section \<open>Document Generation Widget (RequirementsPanel.jsx)\<close>

record artifact_set =
  useCases :: jsval
  userStories :: jsval
  processDiagram :: jsval

text \<open>
  The component state (lines 6 to 16). \<open>projectName\<close> is the value of a text input and
  so always a string; the other values start as \<open>null\<close> and later hold whatever the
  backend sent.
\<close>

record panel_state = world +
  projectName :: js_string
  isGenerating :: bool
  requirements :: jsval
  documentContent :: jsval
  error :: jsval
  activeTab :: js_string
  artifacts :: artifact_set

definition initial_panel :: panel_state where
  "initial_panel =
     \<lparr>trace = [], projectName = [], isGenerating = False, requirements = JNull,
      documentContent = JNull, error = JNull, activeTab = str ''requirements'',
      artifacts = \<lparr>useCases = JNull, userStories = JNull, processDiagram = JNull\<rparr>\<rparr>"

subsection \<open>The texts shown to the user, as UTF-16 code units\<close>

text \<open>Line 20, "please enter the project name".\<close>

definition msg_enter_project_name :: js_string where
  "msg_enter_project_name =
     [1055, 1086, 1078, 1072, 1083, 1091, 1081, 1089, 1090, 1072, 44, 32, 1074, 1074, 1077,
      1076, 1080, 1090, 1077, 32, 1085, 1072, 1079, 1074, 1072, 1085, 1080, 1077, 32, 1087,
      1088, 1086, 1077, 1082, 1090, 1072]"

text \<open>Line 46, "requirements generation error".\<close>

definition msg_requirements_failed :: js_string where
  "msg_requirements_failed =
     [1054, 1096, 1080, 1073, 1082, 1072, 32, 1075, 1077, 1085, 1077, 1088, 1072, 1094, 1080,
      1080, 32, 1090, 1088, 1077, 1073, 1086, 1074, 1072, 1085, 1080, 1081]"

text \<open>Lines 49 and 91, "error connecting to the server".\<close>

definition msg_connection :: js_string where
  "msg_connection =
     [1054, 1096, 1080, 1073, 1082, 1072, 32, 1087, 1086, 1076, 1082, 1083, 1102, 1095, 1077,
      1085, 1080, 1103, 32, 1082, 32, 1089, 1077, 1088, 1074, 1077, 1088, 1091]"

text \<open>Line 58, "generate the requirements first".\<close>

definition msg_requirements_first :: js_string where
  "msg_requirements_first =
     [1057, 1085, 1072, 1095, 1072, 1083, 1072, 32, 1089, 1075, 1077, 1085, 1077, 1088, 1080,
      1088, 1091, 1081, 1090, 1077, 32, 1090, 1088, 1077, 1073, 1086, 1074, 1072, 1085, 1080,
      1103]"

text \<open>Line 88, "artifact generation error".\<close>

definition msg_artifact_failed :: js_string where
  "msg_artifact_failed =
     [1054, 1096, 1080, 1073, 1082, 1072, 32, 1075, 1077, 1085, 1077, 1088, 1072, 1094, 1080,
      1080, 32, 1072, 1088, 1090, 1077, 1092, 1072, 1082, 1090, 1072]"

text \<open>Line 114, "generate the document first".\<close>

definition msg_document_first :: js_string where
  "msg_document_first =
     [1057, 1085, 1072, 1095, 1072, 1083, 1072, 32, 1089, 1075, 1077, 1085, 1077, 1088, 1080,
      1088, 1091, 1081, 1090, 1077, 32, 1076, 1086, 1082, 1091, 1084, 1077, 1085, 1090]"

text \<open>Line 149, "error publishing to Confluence".\<close>

definition msg_publish_failed :: js_string where
  "msg_publish_failed =
     [1054, 1096, 1080, 1073, 1082, 1072, 32, 1087, 1091, 1073, 1083, 1080, 1082, 1072, 1094,
      1080, 1080, 32, 1074, 32, 67, 111, 110, 102, 108, 117, 101, 110, 99, 101]"

text \<open>Line 153, the text before the substitution: \<open>msg_connection\<close>, a colon and a space.\<close>

definition msg_connection_prefix :: js_string where
  "msg_connection_prefix = msg_connection @ [58, 32]"

text \<open>Lines 122, 139, 148 and 152: the labels of the console lines (each starts with an emoji).\<close>

definition log_publishing :: js_string where
  "log_publishing = [55357, 56548, 32] @ str ''Publishing to Confluence...''"

definition log_confluence_response :: js_string where
  "log_confluence_response = [55357, 56549, 32] @ str ''Confluence response:''"

definition log_confluence_error :: js_string where
  "log_confluence_error = [10060, 32] @ str ''Confluence error:''"

definition log_exception :: js_string where
  "log_exception = [10060, 32] @ str ''Exception:''"

text \<open>Line 143: "the document was published to Confluence", "link:", "open the page?".\<close>

definition msg_published_before :: js_string where
  "msg_published_before =
     [1044, 1086, 1082, 1091, 1084, 1077, 1085, 1090, 32, 1091, 1089, 1087, 1077, 1096, 1085,
      1086, 32, 1086, 1087, 1091, 1073, 1083, 1080, 1082, 1086, 1074, 1072, 1085, 32, 1074,
      32, 67, 111, 110, 102, 108, 117, 101, 110, 99, 101, 33, 10, 10, 1057, 1089, 1099, 1083,
      1082, 1072, 58, 32]"

definition msg_published_after :: js_string where
  "msg_published_after =
     [10, 10, 1054, 1090, 1082, 1088, 1099, 1090, 1100, 32, 1089, 1090, 1088, 1072, 1085,
      1080, 1094, 1091, 63]"

subsection \<open>generateRequirements (lines 18 to 54)\<close>

text \<open>
  \<open>sessionId\<close> is the component's prop; \<open>outcome\<close> is how the one request settles.
  The handler reads \<open>projectName\<close> from the state it was rendered with.
\<close>

definition generateRequirements :: "jsval \<Rightarrow> fetch_outcome \<Rightarrow> (panel_state, unit) js" where
  "generateRequirements sessionId outcome =
     bind get_state (\<lambda>c.
       if trim (projectName c) = [] then
         modify (\<lambda>s. s\<lparr>error := JStr msg_enter_project_name\<rparr>)
       else
         seq (modify (\<lambda>s. s\<lparr>isGenerating := True\<rparr>))
        (seq (modify (\<lambda>s. s\<lparr>error := JNull\<rparr>))
        (try_catch_finally
          (bind (fetch outcome (str ''http://localhost:8000/generate-requirements'')
                   (JsonBody (JObj [(str ''session_id'', sessionId),
                                    (str ''project_name'', JStr (projectName c)),
                                    (str ''additional_context'', JNull)]))) (\<lambda>response.
           bind (lift (json response)) (\<lambda>data.
           bind (lift (get_prop data (str ''success''))) (\<lambda>success.
             if truthy success then
               bind (lift (get_prop data (str ''requirements''))) (\<lambda>r.
               seq (modify (\<lambda>s. s\<lparr>requirements := r\<rparr>))
              (bind (lift (get_prop data (str ''document''))) (\<lambda>d.
               modify (\<lambda>s. s\<lparr>documentContent := d\<rparr>))))
             else
               bind (lift (get_prop data (str ''error''))) (\<lambda>e.
               modify (\<lambda>s. s\<lparr>error := js_or e (JStr msg_requirements_failed)\<rparr>))))))
          (\<lambda>err.
             seq (modify (\<lambda>s. s\<lparr>error := JStr msg_connection\<rparr>))
                 (emit (ConsoleError [LogErr err])))
          (modify (\<lambda>s. s\<lparr>isGenerating := False\<rparr>)))))"

subsection \<open>generateArtifact (lines 56 to 96)\<close>

definition generateArtifact :: "js_string \<Rightarrow> fetch_outcome \<Rightarrow> (panel_state, unit) js" where
  "generateArtifact artifactType outcome =
     bind get_state (\<lambda>c.
       if \<not> truthy (requirements c) then
         modify (\<lambda>s. s\<lparr>error := JStr msg_requirements_first\<rparr>)
       else
         seq (modify (\<lambda>s. s\<lparr>isGenerating := True\<rparr>))
        (seq (modify (\<lambda>s. s\<lparr>error := JNull\<rparr>))
        (try_catch_finally
          (bind (fetch outcome (str ''http://localhost:8000/generate-artifacts'')
                   (JsonBody (JObj [(str ''requirements'', requirements c),
                                    (str ''artifact_type'', JStr artifactType)]))) (\<lambda>response.
           bind (lift (json response)) (\<lambda>data.
           bind (lift (get_prop data (str ''success''))) (\<lambda>success.
             if truthy success then
               (if artifactType = str ''use_cases'' then
                  bind (lift (get_prop data (str ''artifacts''))) (\<lambda>a.
                  modify (\<lambda>s. s\<lparr>artifacts := (artifacts s)\<lparr>useCases := a\<rparr>\<rparr>))
                else if artifactType = str ''user_stories'' then
                  bind (lift (get_prop data (str ''artifacts''))) (\<lambda>a.
                  modify (\<lambda>s. s\<lparr>artifacts := (artifacts s)\<lparr>userStories := a\<rparr>\<rparr>))
                else if artifactType = str ''process_diagram'' then
                  bind (lift (get_prop data (str ''diagram''))) (\<lambda>d.
                  modify (\<lambda>s. s\<lparr>artifacts := (artifacts s)\<lparr>processDiagram := d\<rparr>\<rparr>))
                else ret ())
             else
               bind (lift (get_prop data (str ''error''))) (\<lambda>e.
               modify (\<lambda>s. s\<lparr>error := js_or e (JStr msg_artifact_failed)\<rparr>))))))
          (\<lambda>err.
             seq (modify (\<lambda>s. s\<lparr>error := JStr msg_connection\<rparr>))
                 (emit (ConsoleError [LogErr err])))
          (modify (\<lambda>s. s\<lparr>isGenerating := False\<rparr>)))))"

subsection \<open>downloadDocument (lines 98 to 110)\<close>

text \<open>
  The file name is the template \<open>${projectName || 'requirements'}.md\<close>; \<open>projectName\<close>
  is a string, falsy exactly when empty.
\<close>

definition download_name :: "js_string \<Rightarrow> js_string" where
  "download_name pn = (if pn \<noteq> [] then pn else str ''requirements'') @ str ''.md''"

definition downloadDocument :: "(panel_state, unit) js" where
  "downloadDocument =
     bind get_state (\<lambda>c.
       if \<not> truthy (documentContent c) then ret ()
       else emit (SaveFile (download_name (projectName c)) (str ''text/markdown'')
                    (documentContent c)))"

subsection \<open>publishToConfluence (lines 112 to 157)\<close>

text \<open>
  \<open>answer\<close> is what the user answers to \<open>window.confirm\<close>, when it is asked.
\<close>

definition publishToConfluence :: "fetch_outcome \<Rightarrow> bool \<Rightarrow> (panel_state, unit) js" where
  "publishToConfluence outcome answer =
     bind get_state (\<lambda>c.
       if \<not> truthy (documentContent c) then
         modify (\<lambda>s. s\<lparr>error := JStr msg_document_first\<rparr>)
       else
         seq (modify (\<lambda>s. s\<lparr>isGenerating := True\<rparr>))
        (seq (modify (\<lambda>s. s\<lparr>error := JNull\<rparr>))
        (try_catch_finally
          (seq (emit (ConsoleLog [LogVal (JStr log_publishing),
                  LogVal (JObj [(str ''project_name'', JStr (projectName c)),
                                (str ''document_length'', js_length (documentContent c))])]))
          (bind (fetch outcome (str ''http://localhost:8000/publish-to-confluence'')
                   (JsonBody (JObj [(str ''project_name'', JStr (projectName c)),
                                    (str ''document'', documentContent c)]))) (\<lambda>response.
           bind (lift (json response)) (\<lambda>data.
           seq (emit (ConsoleLog [LogVal (JStr log_confluence_response), LogVal data]))
          (bind (lift (get_prop data (str ''success''))) (\<lambda>success.
             if truthy success then
               bind (lift (get_prop data (str ''page_url''))) (\<lambda>page_url.
               seq (emit (Confirm [Lit msg_published_before, Subst page_url,
                                   Lit msg_published_after]))
                   (if answer then emit (WindowOpen page_url (str ''_blank'')) else ret ()))
             else
               bind (lift (get_prop data (str ''error''))) (\<lambda>e.
               seq (emit (ConsoleError [LogVal (JStr log_confluence_error), LogVal e]))
                   (modify (\<lambda>s. s\<lparr>error := js_or e (JStr msg_publish_failed)\<rparr>)))))))))
          (\<lambda>err.
             seq (emit (ConsoleError [LogVal (JStr log_exception), LogErr err]))
                 (modify (\<lambda>s. s\<lparr>error := JStr (msg_connection_prefix @ message err)\<rparr>)))
          (modify (\<lambda>s. s\<lparr>isGenerating := False\<rparr>)))))"

section \<open>Conversation Widget (ChatInterface.jsx)\<close>

text \<open>
  The source file holds two revisions of the component: the text-only one (lines 1 to 153)
  and the one with a file attachment (lines 154 to 361). Both are modelled; the second
  state extends the first.
\<close>

datatype msg_type = user | agent

text \<open>
  A message object. A property the object literal does not set is \<open>JUndefined\<close>.
  \<open>msg_id\<close> is the property \<open>id\<close>.
\<close>

record message =
  msg_id :: int
  type :: msg_type
  content :: jsval
  fileName :: jsval
  image :: jsval

record chat_base = world +
  messages :: "message list"
  inputValue :: js_string
  isLoading :: bool

text \<open>
  \<open>fileInputRef\<close> is \<open>None\<close> when \<open>fileInputRef.current\<close> is null, and otherwise the
  \<open>value\<close> of the file input element.
\<close>

record chat_state = chat_base +
  selectedFile :: "js_file option"
  fileInputRef :: "js_string option"

text \<open>Lines 9 and 163.\<close>

definition welcome_text :: js_string where
  "welcome_text = str ''Hello! I am your Business Analytics Agent. How can I assist you with analyzing your business processes today?''"

definition welcome_message :: message where
  "welcome_message = \<lparr>msg_id = 1, type = agent, content = JStr welcome_text,
              fileName = JUndefined, image = JUndefined\<rparr>"

text \<open>Lines 66 and 233.\<close>

definition fallback_text :: js_string where
  "fallback_text = str ''I apologize, but I'' @ [39] @ str ''m having trouble connecting to the analytics engine. Please ensure the backend server is running.''"

definition initial_chat_v1 :: chat_base where
  "initial_chat_v1 = \<lparr>trace = [], messages = [welcome_message], inputValue = [], isLoading = False\<rparr>"

definition initial_chat :: chat_state where
  "initial_chat = \<lparr>trace = [], messages = [welcome_message], inputValue = [], isLoading = False,
                    selectedFile = None, fileInputRef = Some []\<rparr>"

text \<open>
  What one run of the handler gets from outside: the clock reading \<open>Date.now()\<close> when
  the form is submitted, how the request settles, and the clock reading when the reply
  (or the failure) is handled.
\<close>

record chat_env =
  now_submit :: int
  outcome :: fetch_outcome
  now_reply :: int

definition not_ok_error :: js_error where
  "not_ok_error = JsError (str ''Error'') (str ''Network response was not ok'')"

text \<open>
  The three message objects the handlers build; \<open>now\<close> is the reading of
  \<open>Date.now()\<close> at that point. Lines 53 to 58 and 220 to 225:
\<close>

definition agent_message :: "int \<Rightarrow> jsval \<Rightarrow> jsval \<Rightarrow> message" where
  "agent_message now r i =
     \<lparr>msg_id = now + 1, type = agent, content = r, fileName = JUndefined, image = i\<rparr>"

text \<open>Lines 63 to 67 and 230 to 234:\<close>

definition error_message :: "int \<Rightarrow> message" where
  "error_message now =
     \<lparr>msg_id = now + 1, type = agent, content = JStr fallback_text,
      fileName = JUndefined, image = JUndefined\<rparr>"

subsection \<open>handleSendMessage, first revision (lines 24 to 72)\<close>

text \<open>Lines 28 to 32:\<close>

definition user_message_v1 :: "int \<Rightarrow> js_string \<Rightarrow> message" where
  "user_message_v1 now input =
     \<lparr>msg_id = now, type = user, content = JStr input,
      fileName = JUndefined, image = JUndefined\<rparr>"

definition handleSendMessage_v1 :: "chat_env \<Rightarrow> ('a chat_base_scheme, unit) js" where
  "handleSendMessage_v1 env =
     bind get_state (\<lambda>c.
       if trim (inputValue c) = [] then ret ()
       else
         let userMessage = user_message_v1 (now_submit env) (inputValue c) in
         seq (modify (\<lambda>s. s\<lparr>messages := messages s @ [userMessage]\<rparr>))
        (seq (modify (\<lambda>s. s\<lparr>inputValue := []\<rparr>))
        (seq (modify (\<lambda>s. s\<lparr>isLoading := True\<rparr>))
        (try_catch_finally
          (bind (fetch (outcome env) (str ''http://localhost:8000/chat'')
                   (JsonBody (JObj [(str ''message'', content userMessage)]))) (\<lambda>response.
           seq (if \<not> ok response then throw not_ok_error else ret ())
          (bind (lift (json response)) (\<lambda>data.
           bind (lift (get_prop data (str ''response''))) (\<lambda>r.
           bind (lift (get_prop data (str ''image''))) (\<lambda>i.
             let agentMessage = agent_message (now_reply env) r i
             in modify (\<lambda>s. s\<lparr>messages := messages s @ [agentMessage]\<rparr>)))))))
          (\<lambda>err.
             seq (emit (ConsoleError [LogVal (JStr (str ''Error:'')), LogErr err]))
                 (modify (\<lambda>s. s\<lparr>messages := messages s @ [error_message (now_reply env)]\<rparr>)))
          (modify (\<lambda>s. s\<lparr>isLoading := False\<rparr>))))))"

subsection \<open>handleSendMessage, second revision (lines 186 to 242)\<close>

text \<open>Lines 190 to 195:\<close>

definition user_message :: "int \<Rightarrow> js_string \<Rightarrow> js_file option \<Rightarrow> message" where
  "user_message now input file =
     \<lparr>msg_id = now, type = user, content = JStr input,
      fileName = (case file of Some f \<Rightarrow> JStr (name f) | None \<Rightarrow> JNull),
      image = JUndefined\<rparr>"

definition handleSendMessage :: "chat_env \<Rightarrow> (chat_state, unit) js" where
  "handleSendMessage env =
     bind get_state (\<lambda>c.
       if trim (inputValue c) = [] \<and> selectedFile c = None then ret ()
       else
         let userMessage = user_message (now_submit env) (inputValue c) (selectedFile c) in
         seq (modify (\<lambda>s. s\<lparr>messages := messages s @ [userMessage]\<rparr>))
        (seq (modify (\<lambda>s. s\<lparr>inputValue := []\<rparr>))
        (seq (modify (\<lambda>s. s\<lparr>selectedFile := None\<rparr>))
        (seq (modify (\<lambda>s. s\<lparr>isLoading := True\<rparr>))
        (try_catch_finally
          (let formData =
                 [(str ''message'', FormText (content userMessage))] @
                 (case selectedFile c of Some f \<Rightarrow> [(str ''file'', FormFile f)] | None \<Rightarrow> [])
           in
           bind (fetch (outcome env) (str ''http://localhost:8000/chat'') (FormBody formData))
             (\<lambda>response.
           seq (if \<not> ok response then throw not_ok_error else ret ())
          (bind (lift (json response)) (\<lambda>data.
           bind (lift (get_prop data (str ''response''))) (\<lambda>r.
           bind (lift (get_prop data (str ''image''))) (\<lambda>i.
             let agentMessage = agent_message (now_reply env) r i
             in modify (\<lambda>s. s\<lparr>messages := messages s @ [agentMessage]\<rparr>)))))))
          (\<lambda>err.
             seq (emit (ConsoleError [LogVal (JStr (str ''Error:'')), LogErr err]))
                 (modify (\<lambda>s. s\<lparr>messages := messages s @ [error_message (now_reply env)]\<rparr>)))
          (seq (modify (\<lambda>s. s\<lparr>isLoading := False\<rparr>))
               (modify (\<lambda>s. case fileInputRef s of
                                 None \<Rightarrow> s
                               | Some v \<Rightarrow> s\<lparr>fileInputRef := Some []\<rparr>))))))))"

subsection \<open>Sequences of submissions\<close>

text \<open>
  A submission: the user types \<open>text\<close> (and, in the second revision, may pick a file),
  submits the form, and the handler runs to its end before the next submission.
\<close>

record submission =
  text_typed :: js_string
  file_picked :: "js_file option"
  environment :: chat_env

definition submit_v1 :: "submission \<Rightarrow> chat_base \<Rightarrow> chat_base" where
  "submit_v1 sub st = snd (handleSendMessage_v1 (environment sub) (st\<lparr>inputValue := text_typed sub\<rparr>))"

definition submit :: "submission \<Rightarrow> chat_state \<Rightarrow> chat_state" where
  "submit sub st =
     snd (handleSendMessage (environment sub)
            (st\<lparr>inputValue := text_typed sub, selectedFile := file_picked sub\<rparr>))"

definition run_v1 :: "submission list \<Rightarrow> chat_base \<Rightarrow> chat_base" where
  "run_v1 subs st = foldl (\<lambda>s sub. submit_v1 sub s) st subs"

definition run :: "submission list \<Rightarrow> chat_state \<Rightarrow> chat_state" where
  "run subs st = foldl (\<lambda>s sub. submit sub s) st subs"

subsection \<open>What the specification says of a sequence\<close>

text \<open>
  The guards of the two handlers (lines 26 and 188): a submission that passes them
  is one the widget acts on.
\<close>

definition valid_v1 :: "submission \<Rightarrow> bool" where
  "valid_v1 sub = (trim (text_typed sub) \<noteq> [])"

definition valid :: "submission \<Rightarrow> bool" where
  "valid sub = (\<not> (trim (text_typed sub) = [] \<and> file_picked sub = None))"

text \<open>
  A backend response succeeds when the request resolves with a 2xx status and a JSON
  body whose properties can be read (anything but \<open>null\<close>).
\<close>

definition succeeds :: "submission \<Rightarrow> bool" where
  "succeeds sub =
     (case outcome (environment sub) of
        Rejects e \<Rightarrow> False
      | Resolves r \<Rightarrow>
          ok r \<and> (case json r of
                    Inl e \<Rightarrow> False
                  | Inr d \<Rightarrow> (case get_prop d (str ''response'') of
                               Inl e \<Rightarrow> False | Inr v \<Rightarrow> True)))"

definition reply_data :: "submission \<Rightarrow> jsval" where
  "reply_data sub =
     (case outcome (environment sub) of
        Rejects e \<Rightarrow> JNull
      | Resolves r \<Rightarrow> (case json r of Inl e \<Rightarrow> JNull | Inr d \<Rightarrow> d))"

definition read_prop :: "jsval \<Rightarrow> js_string \<Rightarrow> jsval" where
  "read_prop d key = (case get_prop d key of Inl e \<Rightarrow> JUndefined | Inr v \<Rightarrow> v)"

text \<open>
  The specification's transcript: the seed, then for each submission its user message
  followed by the agent message built from its response.
\<close>

definition expected_exchange_v1 :: "submission \<Rightarrow> message list" where
  "expected_exchange_v1 sub =
     [user_message_v1 (now_submit (environment sub)) (text_typed sub),
      agent_message (now_reply (environment sub))
        (read_prop (reply_data sub) (str ''response'')) (read_prop (reply_data sub) (str ''image''))]"

definition expected_exchange :: "submission \<Rightarrow> message list" where
  "expected_exchange sub =
     [user_message (now_submit (environment sub)) (text_typed sub) (file_picked sub),
      agent_message (now_reply (environment sub))
        (read_prop (reply_data sub) (str ''response'')) (read_prop (reply_data sub) (str ''image''))]"

text \<open>
  The clock readings of a sequence are spaced when each submission is read later than
  every identifier handed out so far (\<open>t\<close> is the largest of them) and each reply is
  read no earlier than its submission.
\<close>

fun spaced :: "int \<Rightarrow> submission list \<Rightarrow> bool" where
  "spaced t [] = True"
| "spaced t (sub # subs) =
     (t < now_submit (environment sub) \<and> now_submit (environment sub) \<le> now_reply (environment sub)
      \<and> spaced (now_reply (environment sub) + 1) subs)"

section \<open>Example inputs\<close>

text \<open>
  Two questions asked one after the other; the second one comes with a spreadsheet.
  Clock readings are milliseconds since the epoch.
\<close>

definition q1_question :: submission where
  "q1_question =
     \<lparr>text_typed = str ''Show Q1 revenue'', file_picked = None,
      environment =
        \<lparr>now_submit = 1762045200000,
         outcome = Resolves (Response 200 (Inr (JObj
           [(str ''response'', JStr (str ''Revenue grew'')),
            (str ''image'', JStr (str ''iVBORw0KGgo=''))]))),
         now_reply = 1762045200850\<rparr>\<rparr>"

definition q2_question :: submission where
  "q2_question =
     \<lparr>text_typed = str ''And Q2?'', file_picked = Some (File (str ''q2.xlsx'') [80, 75, 3, 4]),
      environment =
        \<lparr>now_submit = 1762045260000,
         outcome = Resolves (Response 200 (Inr (JObj
           [(str ''response'', JStr (str ''Q2 is flat''))]))),
         now_reply = 1762045261200\<rparr>\<rparr>"

text \<open>
  The same second question, submitted one millisecond after the first reply was handled.
\<close>

definition hasty_question :: submission where
  "hasty_question =
     q2_question\<lparr>environment := (environment q2_question)\<lparr>now_submit := 1762045200851\<rparr>\<rparr>"

definition failed_to_fetch :: js_error where
  "failed_to_fetch = JsError (str ''TypeError'') (str ''Failed to fetch'')"


text \<open>What \<open>response.json()\<close> rejects with when a proxy answers with an HTML page.\<close>

definition not_json :: js_error where
  "not_json = JsError (str ''SyntaxError'') (str ''Unexpected token < in JSON at position 0'')"

text \<open>The backend is down, or answers 500.\<close>

definition offline_env :: chat_env where
  "offline_env =
     \<lparr>now_submit = 1762045200000, outcome = Rejects failed_to_fetch,
      now_reply = 1762045200020\<rparr>"

definition http500_env :: chat_env where
  "http500_env =
     \<lparr>now_submit = 1762045200000,
      outcome = Resolves (Response 500 (Inr (JObj [(str ''detail'', JStr (str ''boom''))]))),
      now_reply = 1762045200020\<rparr>"

definition asking_v1 :: chat_base where
  "asking_v1 = initial_chat_v1\<lparr>inputValue := str ''Show Q1 revenue''\<rparr>"

definition asking :: chat_state where
  "asking = initial_chat\<lparr>inputValue := str ''Show Q1 revenue''\<rparr>"

text \<open>The panel with a project name typed, and after a generation that succeeded.\<close>

definition loan_named :: panel_state where
  "loan_named = initial_panel\<lparr>projectName := str ''Loan Automation''\<rparr>"

definition loan_ready :: panel_state where
  "loan_ready =
     loan_named\<lparr>requirements := JObj [(str ''id'', JNum 7)],
                documentContent := JStr (str ''# Req'')\<rparr>"

definition blank_named :: panel_state where
  "blank_named = initial_panel\<lparr>projectName := [32, 9, 160]\<rparr>"



section \<open>Shared facts\<close>

lemmas js_defs = bind_def seq_def ret_def throw_def lift_def get_state_def modify_def
  emit_def try_catch_finally_def fetch_def

lemmas eval_defs = str_def trim_def js_whitespace_def ok_def

lemma get_prop_defined:
  "get_prop d key = Inr v \<Longrightarrow> get_prop d key' \<noteq> Inl e"
  by (cases d) auto

lemma submit_success:
  "valid sub \<Longrightarrow> succeeds sub \<Longrightarrow> messages (submit sub st) = messages st @ expected_exchange sub"
  by (cases "outcome (environment sub)")
     (auto simp: submit_def handleSendMessage_def js_defs Let_def valid_def succeeds_def
        expected_exchange_def reply_data_def read_prop_def
        split: sum.splits option.splits dest: get_prop_defined)

lemma submit_v1_success:
  "valid_v1 sub \<Longrightarrow> succeeds sub \<Longrightarrow>
   messages (submit_v1 sub st) = messages st @ expected_exchange_v1 sub"
  by (cases "outcome (environment sub)")
     (auto simp: submit_v1_def handleSendMessage_v1_def js_defs Let_def valid_v1_def succeeds_def
        expected_exchange_v1_def reply_data_def read_prop_def
        split: sum.splits option.splits dest: get_prop_defined)

text \<open>Whatever the outcome, a valid submission appends its user message and one agent message.\<close>

lemma submit_any:
  "valid sub \<Longrightarrow> \<exists>m. messages (submit sub st) =
      messages st @ [user_message (now_submit (environment sub)) (text_typed sub) (file_picked sub), m]
      \<and> msg_id m = now_reply (environment sub) + 1 \<and> type m = agent"
  by (cases "outcome (environment sub)")
     (auto simp: submit_def handleSendMessage_def js_defs Let_def valid_def
        agent_message_def error_message_def split: sum.splits option.splits)

lemma submit_v1_any:
  "valid_v1 sub \<Longrightarrow> \<exists>m. messages (submit_v1 sub st) =
      messages st @ [user_message_v1 (now_submit (environment sub)) (text_typed sub), m]
      \<and> msg_id m = now_reply (environment sub) + 1 \<and> type m = agent"
  by (cases "outcome (environment sub)")
     (auto simp: submit_v1_def handleSendMessage_v1_def js_defs Let_def valid_v1_def
        agent_message_def error_message_def split: sum.splits option.splits)

lemma run_success:
  "list_all valid subs \<Longrightarrow> list_all succeeds subs \<Longrightarrow>
   messages (run subs st) = messages st @ concat (map expected_exchange subs)"
  unfolding run_def
  by (induction subs arbitrary: st) (simp_all add: submit_success)

lemma run_v1_success:
  "list_all valid_v1 subs \<Longrightarrow> list_all succeeds subs \<Longrightarrow>
   messages (run_v1 subs st) = messages st @ concat (map expected_exchange_v1 subs)"
  unfolding run_v1_def
  by (induction subs arbitrary: st) (simp_all add: submit_v1_success)

lemma length_exchanges: "length (concat (map expected_exchange subs)) = 2 * length subs"
  by (induction subs) (simp_all add: expected_exchange_def)

lemma length_exchanges_v1: "length (concat (map expected_exchange_v1 subs)) = 2 * length subs"
  by (induction subs) (simp_all add: expected_exchange_v1_def)

lemma types_exchanges:
  "map type (concat (map expected_exchange subs)) = concat (replicate (length subs) [user, agent])"
  by (induction subs)
     (simp_all add: expected_exchange_def user_message_def agent_message_def)

lemma types_exchanges_v1:
  "map type (concat (map expected_exchange_v1 subs)) = concat (replicate (length subs) [user, agent])"
  by (induction subs)
     (simp_all add: expected_exchange_v1_def user_message_v1_def agent_message_def)

lemma examples_valid:
  "valid q1_question" "valid q2_question" "valid hasty_question"
  "valid_v1 q1_question" "valid_v1 q2_question" "valid_v1 hasty_question"
  by (simp_all add: valid_def valid_v1_def q1_question_def q2_question_def hasty_question_def
        eval_defs)

lemma examples_succeed: "succeeds q1_question" "succeeds q2_question"
  by (simp_all add: succeeds_def q1_question_def q2_question_def eval_defs)

section \<open>Conversation Widget: the transcript\<close>

text \<open>
  C1. After N sequential submissions that pass the handler's guard and whose responses
  all succeed, the transcript is the seed followed, for each submission in order, by its
  user message and then the agent message built from its response: its length is
  1 + 2N and the roles alternate user, agent. This holds for both revisions of the
  handler.
\<close>

theorem transcript_after_successes:
  "(list_all valid subs \<and> list_all succeeds subs \<longrightarrow>
      messages (run subs initial_chat) = welcome_message # concat (map expected_exchange subs)
      \<and> length (messages (run subs initial_chat)) = 1 + 2 * length subs
      \<and> map type (messages (run subs initial_chat))
          = agent # concat (replicate (length subs) [user, agent]))
   \<and> (list_all valid_v1 subs \<and> list_all succeeds subs \<longrightarrow>
      messages (run_v1 subs initial_chat_v1)
          = welcome_message # concat (map expected_exchange_v1 subs)
      \<and> length (messages (run_v1 subs initial_chat_v1)) = 1 + 2 * length subs
      \<and> map type (messages (run_v1 subs initial_chat_v1))
          = agent # concat (replicate (length subs) [user, agent]))"
  by (simp add: run_success run_v1_success length_exchanges length_exchanges_v1
        types_exchanges types_exchanges_v1 initial_chat_def initial_chat_v1_def
        welcome_message_def)

theorem transcript_after_successes_witness:
  "list_all valid [q1_question, q2_question]
   \<and> list_all valid_v1 [q1_question, q2_question]
   \<and> list_all succeeds [q1_question, q2_question]
   \<and> messages (run [q1_question, q2_question] initial_chat)
       = welcome_message # expected_exchange q1_question @ expected_exchange q2_question
   \<and> length (messages (run [q1_question, q2_question] initial_chat)) = 5
   \<and> map type (messages (run [q1_question, q2_question] initial_chat))
       = [agent, user, agent, user, agent]
   \<and> messages (run_v1 [q1_question, q2_question] initial_chat_v1)
       = welcome_message # expected_exchange_v1 q1_question @ expected_exchange_v1 q2_question
   \<and> length (messages (run_v1 [q1_question, q2_question] initial_chat_v1)) = 5
   \<and> map type (messages (run_v1 [q1_question, q2_question] initial_chat_v1))
       = [agent, user, agent, user, agent]"
  using transcript_after_successes [of "[q1_question, q2_question]"]
    examples_valid examples_succeed
  by (simp add: expected_exchange_def expected_exchange_v1_def welcome_message_def
        user_message_def user_message_v1_def agent_message_def)

text \<open>
  C2. When the chat request fails, by a rejected fetch or by a status outside 200 to 299,
  the handler appends the user message and then exactly one more message, the agent
  message whose content is the fixed fallback text; and for every input and outcome the
  handler ends normally: no exception leaves it. Both revisions.
\<close>

theorem chat_failure_fallback:
  "(\<not> (trim (inputValue st) = [] \<and> selectedFile st = None) \<and>
      (outcome env = Rejects e \<or> (outcome env = Resolves r \<and> \<not> ok r))
      \<longrightarrow> messages (snd (handleSendMessage env st))
            = messages st @ [user_message (now_submit env) (inputValue st) (selectedFile st),
                             error_message (now_reply env)])
   \<and> (trim (inputValue st1) \<noteq> [] \<and>
      (outcome env = Rejects e \<or> (outcome env = Resolves r \<and> \<not> ok r))
      \<longrightarrow> messages (snd (handleSendMessage_v1 env st1))
            = messages st1 @ [user_message_v1 (now_submit env) (inputValue st1),
                              error_message (now_reply env)])
   \<and> type (error_message (now_reply env)) = agent
   \<and> content (error_message (now_reply env)) = JStr fallback_text
   \<and> fst (handleSendMessage env st) = Inr ()
   \<and> fst (handleSendMessage_v1 env st1) = Inr ()"
  by (cases "outcome env")
     (auto simp: handleSendMessage_def handleSendMessage_v1_def js_defs Let_def error_message_def
        split: sum.splits option.splits)

theorem chat_failure_fallback_witness:
  "\<not> (trim (inputValue asking) = [] \<and> selectedFile asking = None)
   \<and> trim (inputValue asking_v1) \<noteq> []
   \<and> outcome offline_env = Rejects failed_to_fetch
   \<and> messages (snd (handleSendMessage offline_env asking))
       = [welcome_message, user_message 1762045200000 (str ''Show Q1 revenue'') None,
          error_message 1762045200020]
   \<and> messages (snd (handleSendMessage_v1 offline_env asking_v1))
       = [welcome_message, user_message_v1 1762045200000 (str ''Show Q1 revenue''),
          error_message 1762045200020]
   \<and> \<not> ok (Response 500 (Inr (JObj [(str ''detail'', JStr (str ''boom''))])))
   \<and> messages (snd (handleSendMessage http500_env asking))
       = [welcome_message, user_message 1762045200000 (str ''Show Q1 revenue'') None,
          error_message 1762045200020]
   \<and> messages (snd (handleSendMessage_v1 http500_env asking_v1))
       = [welcome_message, user_message_v1 1762045200000 (str ''Show Q1 revenue''),
          error_message 1762045200020]
   \<and> fst (handleSendMessage http500_env asking) = Inr ()"
proof -
  let ?r = "Response 500 (Inr (JObj [(str ''detail'', JStr (str ''boom''))]))"
  have g: "\<not> (trim (inputValue asking) = [] \<and> selectedFile asking = None)"
    and g1: "trim (inputValue asking_v1) \<noteq> []"
    by (simp_all add: asking_def asking_v1_def initial_chat_def initial_chat_v1_def eval_defs)
  have o: "outcome offline_env = Rejects failed_to_fetch"
    and h: "outcome http500_env = Resolves ?r" and n: "\<not> ok ?r"
    by (simp_all add: offline_env_def http500_env_def ok_def)
  have a: "messages (snd (handleSendMessage offline_env asking))
             = messages asking @ [user_message (now_submit offline_env) (inputValue asking)
                 (selectedFile asking), error_message (now_reply offline_env)]"
    and b: "messages (snd (handleSendMessage_v1 offline_env asking_v1))
             = messages asking_v1 @ [user_message_v1 (now_submit offline_env) (inputValue asking_v1),
                 error_message (now_reply offline_env)]"
    using chat_failure_fallback [of asking offline_env failed_to_fetch ?r asking_v1] g g1 o
    by blast+
  have c: "messages (snd (handleSendMessage http500_env asking))
             = messages asking @ [user_message (now_submit http500_env) (inputValue asking)
                 (selectedFile asking), error_message (now_reply http500_env)]"
    and c1: "messages (snd (handleSendMessage_v1 http500_env asking_v1))
             = messages asking_v1 @ [user_message_v1 (now_submit http500_env) (inputValue asking_v1),
                 error_message (now_reply http500_env)]"
    and d: "fst (handleSendMessage http500_env asking) = Inr ()"
    using chat_failure_fallback [of asking http500_env failed_to_fetch ?r asking_v1] g g1 h n
    by blast+
  show ?thesis
    using g g1 o n d
    by (simp add: a b c c1)
       (simp add: asking_def asking_v1_def initial_chat_def initial_chat_v1_def
          offline_env_def http500_env_def)
qed

text \<open>
  Identifiers come from the clock: a user message takes the reading at submission, an
  agent message the reading at the reply plus one. When the next submission is read one
  millisecond after the previous reply, its identifier repeats that of the reply: the
  identifiers along the transcript are then not strictly increasing.
\<close>

theorem ids_not_increasing_example:
  "valid q1_question \<and> valid hasty_question
   \<and> map msg_id (messages (run [q1_question, hasty_question] initial_chat))
       = [1, 1762045200000, 1762045200851, 1762045200851, 1762045261201]
   \<and> \<not> sorted_wrt (<) (map msg_id (messages (run [q1_question, hasty_question] initial_chat)))"
proof -
  have m: "map msg_id (messages (run [q1_question, hasty_question] initial_chat))
       = [1, 1762045200000, 1762045200851, 1762045200851, 1762045261201]"
    by (simp add: run_def submit_def handleSendMessage_def js_defs Let_def q1_question_def
          q2_question_def hasty_question_def initial_chat_def welcome_message_def
          user_message_def agent_message_def eval_defs)
  show ?thesis by (simp add: m examples_valid)
qed

lemma run_ids:
  "list_all valid subs \<Longrightarrow> spaced t subs \<Longrightarrow> sorted_wrt (<) (map msg_id (messages st)) \<Longrightarrow>
   \<forall>m \<in> set (messages st). msg_id m \<le> t \<Longrightarrow>
   sorted_wrt (<) (map msg_id (messages (run subs st)))"
proof (induction subs arbitrary: st t)
  case Nil
  then show ?case by (simp add: run_def)
next
  case (Cons sub subs)
  from Cons.prems(1) have v: "valid sub" and vs: "list_all valid subs" by simp_all
  from Cons.prems(2) have lt: "t < now_submit (environment sub)"
    and le: "now_submit (environment sub) \<le> now_reply (environment sub)"
    and sp: "spaced (now_reply (environment sub) + 1) subs" by simp_all
  from submit_any [OF v, of st] obtain m where
    ms: "messages (submit sub st) = messages st @
           [user_message (now_submit (environment sub)) (text_typed sub) (file_picked sub), m]"
    and idm: "msg_id m = now_reply (environment sub) + 1" by blast
  have srt: "sorted_wrt (<) (map msg_id (messages (submit sub st)))"
    using Cons.prems(3,4) lt le idm
    by (auto simp: ms sorted_wrt_append user_message_def)
  have bnd: "\<forall>x \<in> set (messages (submit sub st)). msg_id x \<le> now_reply (environment sub) + 1"
    using Cons.prems(4) lt le idm by (auto simp: ms user_message_def)
  have "sorted_wrt (<) (map msg_id (messages (run subs (submit sub st))))"
    by (rule Cons.IH [OF vs sp srt bnd])
  then show ?case by (simp add: run_def)
qed

lemma run_v1_ids:
  "list_all valid_v1 subs \<Longrightarrow> spaced t subs \<Longrightarrow> sorted_wrt (<) (map msg_id (messages st)) \<Longrightarrow>
   \<forall>m \<in> set (messages st). msg_id m \<le> t \<Longrightarrow>
   sorted_wrt (<) (map msg_id (messages (run_v1 subs st)))"
proof (induction subs arbitrary: st t)
  case Nil
  then show ?case by (simp add: run_v1_def)
next
  case (Cons sub subs)
  from Cons.prems(1) have v: "valid_v1 sub" and vs: "list_all valid_v1 subs" by simp_all
  from Cons.prems(2) have lt: "t < now_submit (environment sub)"
    and le: "now_submit (environment sub) \<le> now_reply (environment sub)"
    and sp: "spaced (now_reply (environment sub) + 1) subs" by simp_all
  from submit_v1_any [OF v, of st] obtain m where
    ms: "messages (submit_v1 sub st) = messages st @
           [user_message_v1 (now_submit (environment sub)) (text_typed sub), m]"
    and idm: "msg_id m = now_reply (environment sub) + 1" by blast
  have srt: "sorted_wrt (<) (map msg_id (messages (submit_v1 sub st)))"
    using Cons.prems(3,4) lt le idm
    by (auto simp: ms sorted_wrt_append user_message_v1_def)
  have bnd: "\<forall>x \<in> set (messages (submit_v1 sub st)). msg_id x \<le> now_reply (environment sub) + 1"
    using Cons.prems(4) lt le idm by (auto simp: ms user_message_v1_def)
  have "sorted_wrt (<) (map msg_id (messages (run_v1 subs (submit_v1 sub st))))"
    by (rule Cons.IH [OF vs sp srt bnd])
  then show ?case by (simp add: run_v1_def)
qed

text \<open>
  C8, as amended. For every sequence of guarded submissions and every outcome of their
  requests, the identifiers along the transcript are strictly increasing provided the
  clock readings are spaced: every submission is read later than every identifier
  handed out before it (the seed's 1, the previous reply's reading plus one), and
  every reply is read no earlier than its submission. Both revisions.
\<close>

theorem ids_increase_when_spaced:
  "(list_all valid subs \<and> spaced 1 subs \<longrightarrow>
      sorted_wrt (<) (map msg_id (messages (run subs initial_chat))))
   \<and> (list_all valid_v1 subs \<and> spaced 1 subs \<longrightarrow>
      sorted_wrt (<) (map msg_id (messages (run_v1 subs initial_chat_v1))))"
proof -
  have a: "sorted_wrt (<) (map msg_id (messages initial_chat))"
    and b: "\<forall>m \<in> set (messages initial_chat). msg_id m \<le> 1"
    and c: "sorted_wrt (<) (map msg_id (messages initial_chat_v1))"
    and d: "\<forall>m \<in> set (messages initial_chat_v1). msg_id m \<le> 1"
    by (simp_all add: initial_chat_def initial_chat_v1_def welcome_message_def)
  show ?thesis using run_ids [OF _ _ a b] run_v1_ids [OF _ _ c d] by blast
qed

theorem ids_increase_when_spaced_witness:
  "list_all valid [q1_question, q2_question]
   \<and> list_all valid_v1 [q1_question, q2_question]
   \<and> spaced 1 [q1_question, q2_question]
   \<and> sorted_wrt (<) (map msg_id (messages (run [q1_question, q2_question] initial_chat)))
   \<and> sorted_wrt (<) (map msg_id (messages (run_v1 [q1_question, q2_question] initial_chat_v1)))"
proof -
  have s: "spaced 1 [q1_question, q2_question]"
    by (simp add: q1_question_def q2_question_def)
  show ?thesis
    using ids_increase_when_spaced [of "[q1_question, q2_question]"] s examples_valid
    by simp
qed

section \<open>Document Generation Widget\<close>

text \<open>
  C3. A run of generateRequirements that fails leaves the requirements payload and the
  document text as they were (absent, when they were absent) and sets the error notice:
  to the connection text when the request rejects, the body is not JSON or is null, and
  otherwise, when the body's success field is falsy, to the body's error field if that is
  truthy and to the generic text if not.
\<close>

theorem generateRequirements_failure:
  "(trim (projectName st) \<noteq> [] \<and>
      (out = Rejects e \<or> (out = Resolves r \<and> json r = Inl e) \<or>
       (out = Resolves r \<and> json r = Inr d \<and> get_prop d (str ''success'') = Inl e))
    \<longrightarrow> fst (generateRequirements sid out st) = Inr ()
        \<and> requirements (snd (generateRequirements sid out st)) = requirements st
        \<and> documentContent (snd (generateRequirements sid out st)) = documentContent st
        \<and> error (snd (generateRequirements sid out st)) = JStr msg_connection)
   \<and> (trim (projectName st) \<noteq> [] \<and> out = Resolves r \<and> json r = Inr d \<and>
        get_prop d (str ''success'') = Inr v \<and> \<not> truthy v \<and> get_prop d (str ''error'') = Inr x
    \<longrightarrow> fst (generateRequirements sid out st) = Inr ()
        \<and> requirements (snd (generateRequirements sid out st)) = requirements st
        \<and> documentContent (snd (generateRequirements sid out st)) = documentContent st
        \<and> error (snd (generateRequirements sid out st))
            = (if truthy x then x else JStr msg_requirements_failed))"
  by (auto simp: generateRequirements_def js_defs js_or_def)

theorem generateRequirements_failure_witness:
  "trim (projectName loan_named) \<noteq> []
   \<and> requirements (snd (generateRequirements JNull (Rejects failed_to_fetch) loan_named)) = JNull
   \<and> documentContent (snd (generateRequirements JNull (Rejects failed_to_fetch) loan_named)) = JNull
   \<and> error (snd (generateRequirements JNull (Rejects failed_to_fetch) loan_named))
       = JStr msg_connection
   \<and> \<not> truthy (JBool False)
   \<and> requirements (snd (generateRequirements JNull
        (Resolves (Response 200 (Inr (JObj [(str ''success'', JBool False),
                                            (str ''error'', JStr (str ''no dialogue''))]))))
        loan_named)) = JNull
   \<and> error (snd (generateRequirements JNull
        (Resolves (Response 200 (Inr (JObj [(str ''success'', JBool False),
                                            (str ''error'', JStr (str ''no dialogue''))]))))
        loan_named)) = JStr (str ''no dialogue'')
   \<and> error (snd (generateRequirements JNull
        (Resolves (Response 200 (Inr (JObj [(str ''success'', JBool False)])))) loan_named))
       = JStr msg_requirements_failed
   \<and> error (snd (generateRequirements JNull (Resolves (Response 502 (Inl not_json))) loan_named))
       = JStr msg_connection
   \<and> error (snd (generateRequirements JNull (Resolves (Response 200 (Inr JNull))) loan_named))
       = JStr msg_connection"
proof -
  let ?d = "JObj [(str ''success'', JBool False), (str ''error'', JStr (str ''no dialogue''))]"
  let ?d' = "JObj [(str ''success'', JBool False)]"
  have h: "trim (projectName loan_named) \<noteq> []"
    by (simp add: loan_named_def initial_panel_def eval_defs)
  have n: "requirements loan_named = JNull" "documentContent loan_named = JNull"
    by (simp_all add: loan_named_def initial_panel_def)
  have g: "get_prop ?d (str ''success'') = Inr (JBool False)"
      "get_prop ?d (str ''error'') = Inr (JStr (str ''no dialogue''))"
      "get_prop ?d' (str ''success'') = Inr (JBool False)"
      "get_prop ?d' (str ''error'') = Inr JUndefined"
    by (simp_all add: str_def)
  have a: "requirements (snd (generateRequirements JNull (Rejects failed_to_fetch) loan_named)) = JNull
      \<and> documentContent (snd (generateRequirements JNull (Rejects failed_to_fetch) loan_named)) = JNull
      \<and> error (snd (generateRequirements JNull (Rejects failed_to_fetch) loan_named))
          = JStr msg_connection"
    using generateRequirements_failure
      [where st = loan_named and out = "Rejects failed_to_fetch" and e = failed_to_fetch
         and sid = JNull] h n
    by simp
  have b: "requirements (snd (generateRequirements JNull (Resolves (Response 200 (Inr ?d))) loan_named)) = JNull
      \<and> error (snd (generateRequirements JNull (Resolves (Response 200 (Inr ?d))) loan_named))
          = JStr (str ''no dialogue'')"
    using generateRequirements_failure
      [where st = loan_named and out = "Resolves (Response 200 (Inr ?d))"
         and r = "Response 200 (Inr ?d)" and d = ?d and v = "JBool False"
         and x = "JStr (str ''no dialogue'')" and sid = JNull] h n g
    by (simp add: str_def)
  have c: "error (snd (generateRequirements JNull (Resolves (Response 200 (Inr ?d'))) loan_named))
          = JStr msg_requirements_failed"
    using generateRequirements_failure
      [where st = loan_named and out = "Resolves (Response 200 (Inr ?d'))"
         and r = "Response 200 (Inr ?d')" and d = ?d' and v = "JBool False"
         and x = JUndefined and sid = JNull] h n g
    by simp
  have p: "error (snd (generateRequirements JNull (Resolves (Response 502 (Inl not_json)))
              loan_named)) = JStr msg_connection"
    using generateRequirements_failure
      [where st = loan_named and out = "Resolves (Response 502 (Inl not_json))"
         and r = "Response 502 (Inl not_json)" and e = not_json and sid = JNull] h
    by simp
  have q: "error (snd (generateRequirements JNull (Resolves (Response 200 (Inr JNull)))
              loan_named)) = JStr msg_connection"
    using generateRequirements_failure
      [where st = loan_named and out = "Resolves (Response 200 (Inr JNull))"
         and r = "Response 200 (Inr JNull)" and d = JNull
         and e = "null_property_error (str ''null'') (str ''success'')" and sid = JNull] h
    by simp
  show ?thesis using h a b c p q by simp
qed

text \<open>
  C4. When the requirements are present and the response reports success,
  generateArtifact writes the payload of the response (its artifacts for use_cases and
  user_stories, its diagram for process_diagram) into the slot of that kind and leaves
  the other two slots as they were; a second successful request of the same kind
  replaces the content of that slot and again leaves the other two as they were at the
  start.
\<close>

theorem generateArtifact_slot:
  "truthy (requirements st) \<and>
   json r = Inr d \<and> get_prop d (str ''success'') = Inr v \<and> truthy v \<and>
   get_prop d (str ''artifacts'') = Inr a \<and> get_prop d (str ''diagram'') = Inr g \<and>
   json r' = Inr d' \<and> get_prop d' (str ''success'') = Inr v' \<and> truthy v' \<and>
   get_prop d' (str ''artifacts'') = Inr a' \<and> get_prop d' (str ''diagram'') = Inr g'
   \<longrightarrow>
     artifacts (snd (generateArtifact (str ''use_cases'') (Resolves r) st))
       = (artifacts st)\<lparr>useCases := a\<rparr>
   \<and> artifacts (snd (generateArtifact (str ''user_stories'') (Resolves r) st))
       = (artifacts st)\<lparr>userStories := a\<rparr>
   \<and> artifacts (snd (generateArtifact (str ''process_diagram'') (Resolves r) st))
       = (artifacts st)\<lparr>processDiagram := g\<rparr>
   \<and> artifacts (snd (generateArtifact (str ''use_cases'') (Resolves r')
          (snd (generateArtifact (str ''use_cases'') (Resolves r) st))))
       = (artifacts st)\<lparr>useCases := a'\<rparr>
   \<and> artifacts (snd (generateArtifact (str ''user_stories'') (Resolves r')
          (snd (generateArtifact (str ''user_stories'') (Resolves r) st))))
       = (artifacts st)\<lparr>userStories := a'\<rparr>
   \<and> artifacts (snd (generateArtifact (str ''process_diagram'') (Resolves r')
          (snd (generateArtifact (str ''process_diagram'') (Resolves r) st))))
       = (artifacts st)\<lparr>processDiagram := g'\<rparr>"
  by (simp add: generateArtifact_def js_defs str_def)

theorem generateArtifact_slot_witness:
  "truthy (requirements loan_ready)
   \<and> truthy (JBool True)
   \<and> artifacts (snd (generateArtifact (str ''use_cases'')
        (Resolves (Response 200 (Inr (JObj [(str ''success'', JBool True),
           (str ''artifacts'', JArr [JStr (str ''Apply for a loan'')]),
           (str ''diagram'', JStr (str ''graph TD''))])))) loan_ready))
       = \<lparr>useCases = JArr [JStr (str ''Apply for a loan'')], userStories = JNull,
          processDiagram = JNull\<rparr>
   \<and> artifacts (snd (generateArtifact (str ''process_diagram'')
        (Resolves (Response 200 (Inr (JObj [(str ''success'', JBool True),
           (str ''artifacts'', JArr [JStr (str ''Apply for a loan'')]),
           (str ''diagram'', JStr (str ''graph TD''))])))) loan_ready))
       = \<lparr>useCases = JNull, userStories = JNull, processDiagram = JStr (str ''graph TD'')\<rparr>
   \<and> artifacts (snd (generateArtifact (str ''use_cases'')
        (Resolves (Response 200 (Inr (JObj [(str ''success'', JBool True),
           (str ''artifacts'', JArr [])]))))
        (snd (generateArtifact (str ''use_cases'')
          (Resolves (Response 200 (Inr (JObj [(str ''success'', JBool True),
             (str ''artifacts'', JArr [JStr (str ''Apply for a loan'')]),
             (str ''diagram'', JStr (str ''graph TD''))])))) loan_ready))))
       = \<lparr>useCases = JArr [], userStories = JNull, processDiagram = JNull\<rparr>"
proof -
  let ?d = "JObj [(str ''success'', JBool True),
           (str ''artifacts'', JArr [JStr (str ''Apply for a loan'')]),
           (str ''diagram'', JStr (str ''graph TD''))]"
  let ?d' = "JObj [(str ''success'', JBool True), (str ''artifacts'', JArr [])]"
  have h: "truthy (requirements loan_ready)"
    by (simp add: loan_ready_def)
  have s: "artifacts loan_ready
             = \<lparr>useCases = JNull, userStories = JNull, processDiagram = JNull\<rparr>"
    by (simp add: loan_ready_def loan_named_def initial_panel_def)
  have g: "get_prop ?d (str ''success'') = Inr (JBool True)"
      "get_prop ?d (str ''artifacts'') = Inr (JArr [JStr (str ''Apply for a loan'')])"
      "get_prop ?d (str ''diagram'') = Inr (JStr (str ''graph TD''))"
      "get_prop ?d' (str ''success'') = Inr (JBool True)"
      "get_prop ?d' (str ''artifacts'') = Inr (JArr [])"
      "get_prop ?d' (str ''diagram'') = Inr JUndefined"
    by (simp_all add: str_def)
  show ?thesis
    using generateArtifact_slot
      [where st = loan_ready and r = "Response 200 (Inr ?d)" and d = ?d and v = "JBool True"
         and a = "JArr [JStr (str ''Apply for a loan'')]" and g = "JStr (str ''graph TD'')"
         and r' = "Response 200 (Inr ?d')" and d' = ?d' and v' = "JBool True"
         and a' = "JArr []" and g' = JUndefined] h g
    by (simp add: s)
qed

text \<open>
  C5. An operation whose local precondition is unmet (generateRequirements with a
  project name that is empty after trimming, generateArtifact without a requirements
  payload, publishToConfluence without a document text) ends at once, whatever the
  network would have answered: it sets the error notice to its validation text and
  changes nothing else, so no request is issued.
\<close>

theorem precondition_unmet:
  "(trim (projectName st) = [] \<longrightarrow>
      generateRequirements sid out st = (Inr (), st\<lparr>error := JStr msg_enter_project_name\<rparr>))
   \<and> (\<not> truthy (requirements st) \<longrightarrow>
      generateArtifact kind out st = (Inr (), st\<lparr>error := JStr msg_requirements_first\<rparr>))
   \<and> (\<not> truthy (documentContent st) \<longrightarrow>
      publishToConfluence out answer st = (Inr (), st\<lparr>error := JStr msg_document_first\<rparr>))"
  by (simp add: generateRequirements_def generateArtifact_def publishToConfluence_def js_defs)

theorem precondition_unmet_witness:
  "trim (projectName blank_named) = []
   \<and> \<not> truthy (requirements blank_named)
   \<and> \<not> truthy (documentContent blank_named)
   \<and> generateRequirements JNull (Rejects failed_to_fetch) blank_named
       = (Inr (), blank_named\<lparr>error := JStr msg_enter_project_name\<rparr>)
   \<and> generateArtifact (str ''use_cases'') (Rejects failed_to_fetch) blank_named
       = (Inr (), blank_named\<lparr>error := JStr msg_requirements_first\<rparr>)
   \<and> publishToConfluence (Rejects failed_to_fetch) True blank_named
       = (Inr (), blank_named\<lparr>error := JStr msg_document_first\<rparr>)
   \<and> trace (snd (publishToConfluence (Rejects failed_to_fetch) True blank_named)) = []"
proof -
  have h: "trim (projectName blank_named) = []"
      "\<not> truthy (requirements blank_named)" "\<not> truthy (documentContent blank_named)"
    by (simp_all add: blank_named_def initial_panel_def eval_defs)
  have t: "trace blank_named = []"
    by (simp add: blank_named_def initial_panel_def)
  show ?thesis
    using precondition_unmet
      [of blank_named JNull "Rejects failed_to_fetch" "str ''use_cases''" True] h
    by (simp add: t)
qed

text \<open>
  C6. downloadDocument does nothing at all when the document text is absent. When it is
  present, the state is unchanged and exactly one file is saved, of type text/markdown,
  holding the document text and named after the project with ".md" appended, or
  "requirements.md" when the project name is empty; no request is issued.
\<close>

theorem downloadDocument_file:
  "(\<not> truthy (documentContent st) \<longrightarrow> downloadDocument st = (Inr (), st))
   \<and> (truthy (documentContent st) \<longrightarrow>
        downloadDocument st =
          (Inr (), st\<lparr>trace := trace st @
             [SaveFile (download_name (projectName st)) (str ''text/markdown'')
                (documentContent st)]\<rparr>))
   \<and> download_name [] = str ''requirements.md''
   \<and> (pn \<noteq> [] \<longrightarrow> download_name pn = pn @ str ''.md'')"
  by (simp add: downloadDocument_def download_name_def js_defs str_def)

theorem downloadDocument_file_witness:
  "\<not> truthy (documentContent loan_named)
   \<and> downloadDocument loan_named = (Inr (), loan_named)
   \<and> truthy (documentContent loan_ready)
   \<and> trace (snd (downloadDocument loan_ready))
       = [SaveFile (str ''Loan Automation.md'') (str ''text/markdown'') (JStr (str ''# Req''))]
   \<and> str ''Loan Automation'' \<noteq> []
   \<and> download_name (str ''Loan Automation'') = str ''Loan Automation.md''"
proof -
  have h: "\<not> truthy (documentContent loan_named)" "truthy (documentContent loan_ready)"
    by (simp_all add: loan_ready_def loan_named_def initial_panel_def str_def)
  have n: "str ''Loan Automation'' \<noteq> []"
    by (simp add: str_def)
  have a: "downloadDocument loan_named = (Inr (), loan_named)"
    using downloadDocument_file [of loan_named] h by blast
  have b: "downloadDocument loan_ready =
          (Inr (), loan_ready\<lparr>trace := trace loan_ready @
             [SaveFile (download_name (projectName loan_ready)) (str ''text/markdown'')
                (documentContent loan_ready)]\<rparr>)"
    and c: "download_name (str ''Loan Automation'') = str ''Loan Automation'' @ str ''.md''"
    using downloadDocument_file [of loan_ready "str ''Loan Automation''"] h n by blast+
  show ?thesis
    using h n a b c
    by (simp add: loan_ready_def loan_named_def initial_panel_def str_def)
qed

section \<open>Transport errors and HTTP status\<close>






text \<open>
  C10. Whatever the outcome of publishToConfluence (success, a failure reported by the
  backend, a transport error, or the local validation failure), the project name, the
  requirements payload, the document text and the three artifact slots are as before:
  the final state is the initial one with only the in-flight flag, the error notice
  and the record of console, network and dialog effects replaced. The handler ends
  normally.
\<close>

theorem publishToConfluence_frame:
  "fst (publishToConfluence out answer st) = Inr ()
   \<and> projectName (snd (publishToConfluence out answer st)) = projectName st
   \<and> requirements (snd (publishToConfluence out answer st)) = requirements st
   \<and> documentContent (snd (publishToConfluence out answer st)) = documentContent st
   \<and> artifacts (snd (publishToConfluence out answer st)) = artifacts st
   \<and> snd (publishToConfluence out answer st)
       = st\<lparr>isGenerating := isGenerating (snd (publishToConfluence out answer st)),
            error := error (snd (publishToConfluence out answer st)),
            trace := trace (snd (publishToConfluence out answer st))\<rparr>"
  by (cases out) (auto simp: publishToConfluence_def js_defs split: sum.splits)

end
